theory Spec2Isabelle
  imports Complex_Main
begin

section \<open>Values of the script\<close>

text \<open>
  The script \<^verbatim>\<open>src/script.js\<close> builds a solar system from a table of planet
  configurations and moves it once per animation frame. This theory embeds the two
  classes \<^verbatim>\<open>PlanetConfig\<close> and \<^verbatim>\<open>SolarSystem\<close> and the frame callback \<^verbatim>\<open>tick\<close>.

  Numbers of the script are modelled as mathematical reals (no NaN, no infinities), and
  an arithmetic operation of the script is the real operation, with one exception: the
  addition that advances the rotation of a planet's mesh (script.js 175) is the rounded
  addition of the language, \<open>double_add\<close> below, because what N calls make of the
  rotation depends on the rounding of every one of them. Elsewhere a statement is about
  the operations of one call, and the real operation stands for the script's.
  A colour is the natural number of its hexadecimal literal
  (\<^verbatim>\<open>0xffffff\<close> is 16777215). A property a caller may leave out of the parameter
  object is an \<open>option\<close>: \<open>None\<close> is JavaScript's \<^verbatim>\<open>undefined\<close>.
\<close>

type_synonym colour = nat

text \<open>
  Truthiness of the values that occur: a number is falsy exactly when it is zero
  (NaN is not a real), a boolean when it is false, \<^verbatim>\<open>undefined\<close> always.
\<close>

definition truthy_num :: "real \<Rightarrow> bool" where
  "truthy_num v = (v \<noteq> 0)"

definition truthy_colour :: "colour \<Rightarrow> bool" where
  "truthy_colour v = (v \<noteq> 0)"

definition truthy_bool :: "bool \<Rightarrow> bool" where
  "truthy_bool v = v"

text \<open>
  \<^verbatim>\<open>a || b\<close> evaluates to \<^verbatim>\<open>a\<close> when \<^verbatim>\<open>a\<close> is truthy and to \<^verbatim>\<open>b\<close> otherwise.
  \<open>js_or\<close> is the operator with a right operand that may itself be undefined,
  \<open>js_or_default\<close> the operator with a literal on the right.
\<close>

definition js_or :: "('a \<Rightarrow> bool) \<Rightarrow> 'a option \<Rightarrow> 'a option \<Rightarrow> 'a option" where
  "js_or truthy a b = (case a of None \<Rightarrow> b | Some v \<Rightarrow> if truthy v then Some v else b)"

definition js_or_default :: "('a \<Rightarrow> bool) \<Rightarrow> 'a option \<Rightarrow> 'a \<Rightarrow> 'a" where
  "js_or_default truthy a d = (case a of None \<Rightarrow> d | Some v \<Rightarrow> if truthy v then v else d)"

text \<open>
  Addition of two numbers of the script is the addition of IEEE 754 binary64: the exact
  sum, rounded to the nearest number with a 53-bit significand, a tie going to the even
  significand. \<open>double_exponent a\<close> is the exponent of the binade of \<open>a\<close>, the greatest
  \<open>k\<close> between -1022 and 1023 with \<open>2 powi k \<le> a\<close>, and -1022 below the normal
  range, where the numbers are spaced by \<open>2 powi (- 1074)\<close>. A sum of magnitude
  \<open>2 powi 1024\<close> or more is an infinity in the script and has no counterpart here.
\<close>

fun exponent_search :: "nat \<Rightarrow> real \<Rightarrow> int" where
  "exponent_search 0 a = - 1022"
| "exponent_search (Suc n) a =
    (if 2 powi (int (Suc n) - 1022) \<le> a then int (Suc n) - 1022 else exponent_search n a)"

definition double_exponent :: "real \<Rightarrow> int" where
  "double_exponent a = exponent_search 2045 a"

definition round_half_even :: "real \<Rightarrow> int" where
  "round_half_even m =
    (let f = \<lfloor>m\<rfloor>; d = m - of_int f
     in if d < 1 / 2 then f else if 1 / 2 < d then f + 1 else if even f then f else f + 1)"

definition round_double :: "real \<Rightarrow> real" where
  "round_double x =
    (if x = 0 then 0
     else (let q = 2 powi (double_exponent \<bar>x\<bar> - 52)
           in sgn x * of_int (round_half_even (\<bar>x\<bar> / q)) * q))"

definition double_add :: "real \<Rightarrow> real \<Rightarrow> real" where
  "double_add x y = round_double (x + y)"

section \<open>PlanetConfig\<close>

text \<open>The object literal handed to \<^verbatim>\<open>new PlanetConfig(params)\<close>.\<close>

record params =
  param_radius :: "real option"
  param_color :: "colour option"
  param_atmosphereColor :: "colour option"
  param_atmosphereThickness :: "real option"
  param_atmosphereOpacity :: "real option"
  param_orbitRadius :: "real option"
  param_rotationSpeed :: "real option"
  param_orbitSpeed :: "real option"
  param_hasRings :: "bool option"
  param_ringColor :: "colour option"
  param_ringInnerRadius :: "real option"
  param_ringOuterRadius :: "real option"

definition no_params :: params where
  "no_params = \<lparr>param_radius = None, param_color = None, param_atmosphereColor = None,
     param_atmosphereThickness = None, param_atmosphereOpacity = None,
     param_orbitRadius = None, param_rotationSpeed = None, param_orbitSpeed = None,
     param_hasRings = None, param_ringColor = None, param_ringInnerRadius = None,
     param_ringOuterRadius = None\<rparr>"

record PlanetConfig =
  radius :: real
  color :: colour
  atmosphereColor :: colour
  atmosphereThickness :: real
  atmosphereOpacity :: real
  orbitRadius :: real
  rotationSpeed :: real
  orbitSpeed :: real
  hasRings :: bool
  ringColor :: colour
  ringInnerRadius :: "real option"
  ringOuterRadius :: "real option"

definition white :: colour where
  "white = 16777215"

text \<open>
  The constructor, line by line (script.js 41-54):
  \<^verbatim>\<open>
  this.radius = params.radius || 1;
  this.color = params.color || 0xffffff;
  this.atmosphereColor = params.atmosphereColor || params.color || 0xffffff;
  this.atmosphereThickness = params.atmosphereThickness || 0.1;
  this.atmosphereOpacity = params.atmosphereOpacity || 0.2;
  this.orbitRadius = params.orbitRadius || 0;
  this.rotationSpeed = params.rotationSpeed || 0.005;
  this.orbitSpeed = params.orbitSpeed || 0.001;
  this.hasRings = params.hasRings || false;
  this.ringColor = params.ringColor || 0xffffff;
  this.ringInnerRadius = params.ringInnerRadius;
  this.ringOuterRadius = params.ringOuterRadius;
  \<close>
\<close>

definition new_PlanetConfig :: "params \<Rightarrow> PlanetConfig" where
  "new_PlanetConfig p =
    \<lparr>radius = js_or_default truthy_num (param_radius p) 1,
     color = js_or_default truthy_colour (param_color p) white,
     atmosphereColor =
       js_or_default truthy_colour
         (js_or truthy_colour (param_atmosphereColor p) (param_color p)) white,
     atmosphereThickness = js_or_default truthy_num (param_atmosphereThickness p) 0.1,
     atmosphereOpacity = js_or_default truthy_num (param_atmosphereOpacity p) 0.2,
     orbitRadius = js_or_default truthy_num (param_orbitRadius p) 0,
     rotationSpeed = js_or_default truthy_num (param_rotationSpeed p) 0.005,
     orbitSpeed = js_or_default truthy_num (param_orbitSpeed p) 0.001,
     hasRings = js_or_default truthy_bool (param_hasRings p) False,
     ringColor = js_or_default truthy_colour (param_ringColor p) white,
     ringInnerRadius = param_ringInnerRadius p,
     ringOuterRadius = param_ringOuterRadius p\<rparr>"

section \<open>The scene graph\<close>

text \<open>
  Every \<^verbatim>\<open>THREE.Group\<close> and \<^verbatim>\<open>THREE.Mesh\<close> is an object with identity: the registry
  entry of a planet and the children list of its parent name the same object. The
  objects live in a store, a list indexed by reference; \<^verbatim>\<open>new\<close> appends to it.
  Geometries and materials are never changed after their construction and are kept by
  value. A fresh object sits at the origin with no rotation and no children, as the
  library creates it. A material's \<^verbatim>\<open>side\<close> is \<open>None\<close> where the script gives none,
  and a ring geometry keeps its two radii as they were passed, \<open>None\<close> for
  \<^verbatim>\<open>undefined\<close>. Every reference a state holds was returned by \<open>alloc\<close>, so none
  points outside the store (\<open>refs_ok\<close> below, which holds in every state of a history).
\<close>

type_synonym ref = nat

datatype side = FrontSide | BackSide | DoubleSide

datatype geometry =
    SphereGeometry real nat nat
  | RingGeometry "real option" "real option" nat

datatype material =
    MeshBasicMaterial colour bool real "side option"
  | MeshStandardMaterial colour real real
  | MeshPhongMaterial colour bool real "side option"

datatype payload = Group | Mesh geometry material

record object3d =
  payload :: payload
  position_x :: real
  position_y :: real
  position_z :: real
  rotation_x :: real
  rotation_y :: real
  rotation_z :: real
  children :: "ref list"

definition new_object :: "payload \<Rightarrow> object3d" where
  "new_object p = \<lparr>payload = p, position_x = 0, position_y = 0, position_z = 0,
     rotation_x = 0, rotation_y = 0, rotation_z = 0, children = []\<rparr>"

definition alloc :: "object3d \<Rightarrow> object3d list \<Rightarrow> ref \<times> object3d list" where
  "alloc obj h = (length h, h @ [obj])"

text \<open>\<^verbatim>\<open>parent.add(child)\<close>: the child is appended to the parent's children.\<close>

definition add :: "ref \<Rightarrow> ref \<Rightarrow> object3d list \<Rightarrow> object3d list" where
  "add parent child h = h[parent := (h ! parent)\<lparr>children := children (h ! parent) @ [child]\<rparr>]"

section \<open>SolarSystem\<close>

text \<open>
  A registry entry is the object literal \<^verbatim>\<open>{group, config, mesh}\<close> of \<^verbatim>\<open>createPlanet\<close>.
  The registry \<^verbatim>\<open>this.planets\<close> is a JavaScript \<^verbatim>\<open>Map\<close>: \<^verbatim>\<open>set\<close> replaces the value of
  a key that is present, in place, and appends a key that is not; \<^verbatim>\<open>forEach\<close> visits
  the entries in that order; \<^verbatim>\<open>get\<close>, which the script never calls, is what retrieving
  an entry by its name means.
\<close>

record entry =
  group :: ref
  config :: PlanetConfig
  mesh :: ref

primrec Map_set :: "'k \<Rightarrow> 'v \<Rightarrow> ('k \<times> 'v) list \<Rightarrow> ('k \<times> 'v) list" where
  "Map_set k v [] = [(k, v)]"
| "Map_set k v (e # es) = (if fst e = k then (k, v) # es else e # Map_set k v es)"

definition Map_get :: "('k \<times> 'v) list \<Rightarrow> 'k \<Rightarrow> 'v option" where
  "Map_get m k = map_of m k"

record SolarSystem =
  objects :: "object3d list"
  planets :: "(string \<times> entry) list"
  planetGroup :: ref
  sun :: ref

text \<open>
  \<^verbatim>\<open>createSun\<close> (script.js 58-79): a sphere of radius 8 with a slightly larger glow
  sphere as its child. It returns the sun.
\<close>

definition createSun :: "object3d list \<Rightarrow> ref \<times> object3d list" where
  "createSun h =
    (let sunGeometry = SphereGeometry 8 64 64;
         sunMaterial = MeshBasicMaterial 16768256 True 0.9 None;
         (sn, h1) = alloc (new_object (Mesh sunGeometry sunMaterial)) h;
         sunGlowGeometry = SphereGeometry 8.5 64 64;
         sunGlowMaterial = MeshBasicMaterial 16768256 True 0.3 (Some BackSide);
         (sunGlow, h2) = alloc (new_object (Mesh sunGlowGeometry sunGlowMaterial)) h1
     in (sn, add sn sunGlow h2))"

text \<open>
  \<^verbatim>\<open>createOrbitLines\<close> (script.js 96-112): eight flat rings of radius 15, 30, ..., 120,
  each turned into the horizontal plane, collected in a group that is added to the
  planet group. The loop \<^verbatim>\<open>for (let i = 0; i < 8; i++)\<close> is the recursion \<open>orbitLines_loop\<close>
  on the number of rounds that remain.
\<close>

fun orbitLines_loop :: "nat \<Rightarrow> nat \<Rightarrow> ref \<Rightarrow> object3d list \<Rightarrow> object3d list" where
  "orbitLines_loop 0 i orbitLines h = h"
| "orbitLines_loop (Suc n) i orbitLines h =
    (let radius = (real i + 1) * 15;
         geometry = RingGeometry (Some (radius - 0.1)) (Some (radius + 0.1)) 128;
         material = MeshBasicMaterial 6710886 True 0.2 (Some DoubleSide);
         (orbitLine, h1) = alloc (new_object (Mesh geometry material)) h;
         h2 = h1[orbitLine := (h1 ! orbitLine)\<lparr>rotation_x := - pi / 2\<rparr>]
     in orbitLines_loop n (Suc i) orbitLines (add orbitLines orbitLine h2))"

definition createOrbitLines :: "ref \<Rightarrow> object3d list \<Rightarrow> object3d list" where
  "createOrbitLines pg h =
    (let (orbitLines, h1) = alloc (new_object Group) h;
         h2 = orbitLines_loop 8 0 orbitLines h1
     in add pg orbitLines h2)"

text \<open>
  The constructor (script.js 83-94). The global \<^verbatim>\<open>scene\<close>, to which the planet group
  is added, is outside the class and is not part of the state.
\<close>

definition new_SolarSystem :: SolarSystem where
  "new_SolarSystem =
    (let (pg, h1) = alloc (new_object Group) [];
         (sn, h2) = createSun h1;
         h3 = add pg sn h2;
         h4 = createOrbitLines pg h3
     in \<lparr>objects = h4, planets = [], planetGroup = pg, sun = sn\<rparr>)"

text \<open>
  \<^verbatim>\<open>createPlanet(name, config)\<close> (script.js 114-170). The group of the planet is
  created first, then the sphere; an atmosphere shell is created and added when
  \<^verbatim>\<open>config.atmosphereOpacity > 0\<close>, a ring when \<^verbatim>\<open>config.hasRings\<close>; the sphere is added
  last. The entry is stored under the name and the group is added to the planet group
  and returned. No branch rejects a configuration.
\<close>

definition createPlanet :: "string \<Rightarrow> PlanetConfig \<Rightarrow> SolarSystem \<Rightarrow> ref \<times> SolarSystem" where
  "createPlanet name cfg s =
    (let (planet, h1) = alloc (new_object Group) (objects s);
         planetGeometry = SphereGeometry (radius cfg) 32 32;
         planetMaterial = MeshStandardMaterial (color cfg) 0.7 0.3;
         (planetMesh, h2) = alloc (new_object (Mesh planetGeometry planetMaterial)) h1;
         h3 = (if atmosphereOpacity cfg > 0 then
                 (let atmosphereGeometry =
                        SphereGeometry (radius cfg * (1 + atmosphereThickness cfg)) 32 32;
                      atmosphereMaterial =
                        MeshPhongMaterial (atmosphereColor cfg) True
                          (atmosphereOpacity cfg) (Some BackSide);
                      (atmosphere, h) =
                        alloc (new_object (Mesh atmosphereGeometry atmosphereMaterial)) h2
                  in add planet atmosphere h)
               else h2);
         h4 = (if hasRings cfg then
                 (let ringGeometry =
                        RingGeometry (ringInnerRadius cfg) (ringOuterRadius cfg) 64;
                      ringMaterial =
                        MeshBasicMaterial (ringColor cfg) True 0.7 (Some DoubleSide);
                      (rings, h) = alloc (new_object (Mesh ringGeometry ringMaterial)) h3;
                      h' = h[rings := (h ! rings)\<lparr>rotation_x := pi / 2\<rparr>]
                  in add planet rings h')
               else h3);
         h5 = add planet planetMesh h4;
         planets' = Map_set name \<lparr>group = planet, config = cfg, mesh = planetMesh\<rparr> (planets s);
         h6 = add (planetGroup s) planet h5
     in (planet, s\<lparr>objects := h6, planets := planets'\<rparr>))"

text \<open>
  \<^verbatim>\<open>updatePlanets(time)\<close> (script.js 172-185). The body of the \<^verbatim>\<open>forEach\<close> callback is
  \<open>update_planet\<close>:
  \<^verbatim>\<open>
  planet.mesh.rotation.y += planet.config.rotationSpeed;
  const angle = time * planet.config.orbitSpeed;
  planet.group.position.x = Math.cos(angle) * planet.config.orbitRadius;
  planet.group.position.z = Math.sin(angle) * planet.config.orbitRadius;
  \<close>
  The \<^verbatim>\<open>+=\<close> of the first line is \<open>double_add\<close>: its result is the operand of the same
  line at the next call, so its rounding adds up over the calls. The position is computed
  anew from the time at every call. After the loop the sun turns by 0.001.
\<close>

definition update_planet :: "real \<Rightarrow> entry \<Rightarrow> object3d list \<Rightarrow> object3d list" where
  "update_planet time planet h =
    (let h1 = h[mesh planet := (h ! mesh planet)
                  \<lparr>rotation_y :=
        double_add (rotation_y (h ! mesh planet)) (rotationSpeed (config planet))\<rparr>];
         angle = time * orbitSpeed (config planet);
         h2 = h1[group planet := (h1 ! group planet)
                  \<lparr>position_x := cos angle * orbitRadius (config planet)\<rparr>];
         h3 = h2[group planet := (h2 ! group planet)
                  \<lparr>position_z := sin angle * orbitRadius (config planet)\<rparr>]
     in h3)"

definition updatePlanets :: "real \<Rightarrow> SolarSystem \<Rightarrow> SolarSystem" where
  "updatePlanets time s =
    (let h = fold (\<lambda>(name, planet). update_planet time planet) (planets s) (objects s)
     in s\<lparr>objects := h[sun s := (h ! sun s)\<lparr>rotation_y := rotation_y (h ! sun s) + 0.001\<rparr>]\<rparr>)"

section \<open>The frame callback\<close>

text \<open>
  The panel's two live fields (script.js 302-305) and the callback \<^verbatim>\<open>tick\<close>
  (script.js 313-326):
  \<^verbatim>\<open>
  if (parameters.autoRotate) {
      const time = performance.now() * 0.001 * parameters.rotationSpeed;
      solarSystem.updatePlanets(time);
  }
  controls.update();
  renderer.render(scene, camera);
  window.requestAnimationFrame(tick);
  \<close>
  The panel's \<^verbatim>\<open>rotationSpeed\<close> is the field \<open>speedMultiplier\<close> here, a planet's
  configuration having a \<open>rotationSpeed\<close> of its own.
  The reading of \<^verbatim>\<open>performance.now()\<close> is an argument. The camera controls and the
  renderer belong to the library and read the planets without writing their position or
  rotation; what \<open>tick\<close> does with them is recorded as the calls it makes, in order.
  The host calls \<open>tick\<close> again for every frame: a run is the list of the frames, each
  with the panel's values and the clock of that frame.
\<close>

record parameters =
  autoRotate :: bool
  speedMultiplier :: real

datatype call =
    Call_updatePlanets real
  | Call_controls_update
  | Call_renderer_render
  | Call_requestAnimationFrame

record world =
  solarSystem :: SolarSystem
  calls :: "call list"

definition tick :: "parameters \<Rightarrow> real \<Rightarrow> world \<Rightarrow> world" where
  "tick ps now w =
    (let w1 = (if autoRotate ps then
                 (let time = now * 0.001 * speedMultiplier ps
                  in w\<lparr>solarSystem := updatePlanets time (solarSystem w),
                       calls := calls w @ [Call_updatePlanets time]\<rparr>)
               else w)
     in w1\<lparr>calls := calls w1 @
              [Call_controls_update, Call_renderer_render, Call_requestAnimationFrame]\<rparr>)"

definition run_frames :: "(parameters \<times> real) list \<Rightarrow> world \<Rightarrow> world" where
  "run_frames frames w = fold (\<lambda>(ps, now). tick ps now) frames w"

section \<open>Histories\<close>

text \<open>
  The states of a solar system are those its two methods produce from the constructor's.
  A history is the list of the method calls made so far, oldest first.
\<close>

datatype command = CreatePlanet string PlanetConfig | UpdatePlanets real

fun exec :: "command \<Rightarrow> SolarSystem \<Rightarrow> SolarSystem" where
  "exec (CreatePlanet name cfg) s = snd (createPlanet name cfg s)"
| "exec (UpdatePlanets time) s = updatePlanets time s"

definition run :: "command list \<Rightarrow> SolarSystem" where
  "run cmds = fold exec cmds new_SolarSystem"

text \<open>
  The configuration table of the script (script.js 192-255), in its order: the parameter
  object of each planet, then the table of the constructed configurations.
\<close>

definition mercury_params :: params where
  "mercury_params = no_params\<lparr>param_radius := Some 0.8, param_color := Some 11053224,
     param_orbitRadius := Some 15, param_orbitSpeed := Some 0.008,
     param_rotationSpeed := Some 0.004\<rparr>"

definition venus_params :: params where
  "venus_params = no_params\<lparr>param_radius := Some 1.2, param_color := Some 15120522,
     param_orbitRadius := Some 30, param_orbitSpeed := Some 0.007,
     param_rotationSpeed := Some 0.003\<rparr>"

definition earth_params :: params where
  "earth_params = no_params\<lparr>param_radius := Some 1.4, param_color := Some 2241535,
     param_atmosphereColor := Some 4487167,
     param_atmosphereOpacity := Some 0.2,
     param_orbitRadius := Some 45, param_orbitSpeed := Some 0.006,
     param_rotationSpeed := Some 0.005\<rparr>"

definition mars_params :: params where
  "mars_params = no_params\<lparr>param_radius := Some 1.0, param_color := Some 16729122,
     param_orbitRadius := Some 60, param_orbitSpeed := Some 0.005,
     param_rotationSpeed := Some 0.004\<rparr>"

definition jupiter_params :: params where
  "jupiter_params = no_params\<lparr>param_radius := Some 4.0, param_color := Some 14207645,
     param_orbitRadius := Some 75, param_orbitSpeed := Some 0.004,
     param_rotationSpeed := Some 0.007\<rparr>"

definition saturn_params :: params where
  "saturn_params = no_params\<lparr>param_radius := Some 3.5, param_color := Some 15390392,
     param_orbitRadius := Some 90, param_orbitSpeed := Some 0.003,
     param_rotationSpeed := Some 0.006, param_hasRings := Some True,
     param_ringColor := Some 12759680,
     param_ringInnerRadius := Some 4.5,
     param_ringOuterRadius := Some 7\<rparr>"

definition uranus_params :: params where
  "uranus_params = no_params\<lparr>param_radius := Some 2.5, param_color := Some 8965375,
     param_orbitRadius := Some 105, param_orbitSpeed := Some 0.002,
     param_rotationSpeed := Some 0.005\<rparr>"

definition neptune_params :: params where
  "neptune_params = no_params\<lparr>param_radius := Some 2.3, param_color := Some 3430143,
     param_orbitRadius := Some 120, param_orbitSpeed := Some 0.001,
     param_rotationSpeed := Some 0.005\<rparr>"

definition planetConfigs :: "(string \<times> PlanetConfig) list" where
  "planetConfigs =
    [(''mercury'', new_PlanetConfig mercury_params),
     (''venus'', new_PlanetConfig venus_params),
     (''earth'', new_PlanetConfig earth_params),
     (''mars'', new_PlanetConfig mars_params),
     (''jupiter'', new_PlanetConfig jupiter_params),
     (''saturn'', new_PlanetConfig saturn_params),
     (''uranus'', new_PlanetConfig uranus_params),
     (''neptune'', new_PlanetConfig neptune_params)]"

text \<open>
  The script registers every row of the table (script.js 258-260); these are the calls
  it has made when the first frame starts.
\<close>

definition script_commands :: "command list" where
  "script_commands = map (\<lambda>(name, cfg). CreatePlanet name cfg) planetConfigs"

definition script_world :: world where
  "script_world = \<lparr>solarSystem = run script_commands, calls = []\<rparr>"

text \<open>Parameter objects with a zero in them, and one that asks for rings without radii.\<close>

definition black_params :: params where
  "black_params = no_params\<lparr>param_color := Some 0\<rparr>"

definition clear_params :: params where
  "clear_params = no_params\<lparr>param_atmosphereOpacity := Some 0\<rparr>"

definition ringed_params :: params where
  "ringed_params = no_params\<lparr>param_hasRings := Some True\<rparr>"

text \<open>
  The number that the literal \<^verbatim>\<open>0.005\<close> denotes, 5764607523034235 / 2 ^ 60: the rotation
  speed of the script's Earth, Uranus and Neptune and the default. A solar system with
  one body of this rotation speed.
\<close>

definition double_0_005 :: real where
  "double_0_005 = 5764607523034235 / 1152921504606846976"

definition drift_params :: params where
  "drift_params = no_params\<lparr>param_rotationSpeed := Some double_0_005\<rparr>"

definition drift_commands :: "command list" where
  "drift_commands = [CreatePlanet ''drift'' (new_PlanetConfig drift_params)]"

text \<open>The payloads of the children of an object, in the order they were added.\<close>

definition child_payloads :: "SolarSystem \<Rightarrow> ref \<Rightarrow> payload list" where
  "child_payloads s r = map (\<lambda>c. payload (objects s ! c)) (children (objects s ! r))"

text \<open>
  The objects \<open>createPlanet\<close> creates besides the group and the sphere, for the
  statements below: the atmosphere shell, if any, and the ring, if any.
\<close>

definition atmosphere_of :: "PlanetConfig \<Rightarrow> object3d list" where
  "atmosphere_of cfg =
    (if atmosphereOpacity cfg > 0 then
       [new_object (Mesh (SphereGeometry (radius cfg * (1 + atmosphereThickness cfg)) 32 32)
          (MeshPhongMaterial (atmosphereColor cfg) True (atmosphereOpacity cfg) (Some BackSide)))]
     else [])"

definition rings_of :: "PlanetConfig \<Rightarrow> object3d list" where
  "rings_of cfg =
    (if hasRings cfg then
       [(new_object (Mesh (RingGeometry (ringInnerRadius cfg) (ringOuterRadius cfg) 64)
          (MeshBasicMaterial (ringColor cfg) True 0.7 (Some DoubleSide))))
          \<lparr>rotation_x := pi / 2\<rparr>]
     else [])"

text \<open>
  Invariants of the states of a history. The references a registry holds, with the sun's,
  are pairwise different objects of the store; names are unique; no registered group
  has left the horizontal plane, and a group whose orbit radius is zero is at the origin.
\<close>

definition entry_refs :: "(string \<times> entry) list \<Rightarrow> ref list" where
  "entry_refs es = concat (map (\<lambda>(name, e). [group e, mesh e]) es)"

definition refs_ok :: "SolarSystem \<Rightarrow> bool" where
  "refs_ok s \<longleftrightarrow>
     distinct (sun s # entry_refs (planets s)) \<and>
     list_all (\<lambda>r. r < length (objects s)) (sun s # planetGroup s # entry_refs (planets s)) \<and>
     distinct (map fst (planets s))"

definition on_plane :: "SolarSystem \<Rightarrow> bool" where
  "on_plane s \<longleftrightarrow>
     list_all (\<lambda>(name, e).
         position_y (objects s ! group e) = 0 \<and>
         (orbitRadius (config e) = 0 \<longrightarrow>
            position_x (objects s ! group e) = 0 \<and> position_z (objects s ! group e) = 0))
       (planets s)"

text \<open>
  Two objects that differ at most in what \<^verbatim>\<open>updatePlanets\<close> writes: the x and z of the
  position and the y of the rotation.
\<close>

definition same_but_motion :: "object3d \<Rightarrow> object3d \<Rightarrow> bool" where
  "same_but_motion a b \<longleftrightarrow>
     a\<lparr>position_x := 0, position_z := 0, rotation_y := 0\<rparr> =
     b\<lparr>position_x := 0, position_z := 0, rotation_y := 0\<rparr>"

section \<open>Construction of a configuration\<close>

lemma js_or_default_None: "js_or_default t None d = d"
  by (simp add: js_or_default_def)

lemma js_or_default_Some: "js_or_default t (Some v) d = (if t v then v else d)"
  by (simp add: js_or_default_def)

lemma js_or_None: "js_or t None b = b"
  by (simp add: js_or_def)

lemma js_or_Some: "js_or t (Some v) b = (if t v then Some v else b)"
  by (simp add: js_or_def)

lemmas js_or_simps = js_or_default_None js_or_default_Some js_or_None js_or_Some
  truthy_num_def truthy_colour_def truthy_bool_def

text \<open>
  Claim C2, as the constructor has it. An omitted \<open>radius\<close>, \<open>color\<close>,
  \<open>atmosphereThickness\<close>, \<open>atmosphereOpacity\<close>, \<open>orbitRadius\<close>, \<open>rotationSpeed\<close>,
  \<open>orbitSpeed\<close>, \<open>hasRings\<close> or \<open>ringColor\<close> takes its default (1, white, 0.1, 0.2, 0,
  0.005, 0.001, false, white). A supplied value that is not zero is kept exactly, for
  every field; a supplied \<open>orbitRadius\<close> and a supplied \<open>hasRings\<close> are kept whatever
  they are. The two ring radii have no default: they are copied, and are absent in the
  configuration when the parameters leave them out.
\<close>

theorem PlanetConfig_defaults_and_supplied:
  fixes p :: params
  defines "c \<equiv> new_PlanetConfig p"
  shows "(param_radius p = None \<longrightarrow> radius c = 1) \<and>
     (param_color p = None \<longrightarrow> color c = white) \<and>
     (param_atmosphereThickness p = None \<longrightarrow> atmosphereThickness c = 0.1) \<and>
     (param_atmosphereOpacity p = None \<longrightarrow> atmosphereOpacity c = 0.2) \<and>
     (param_orbitRadius p = None \<longrightarrow> orbitRadius c = 0) \<and>
     (param_rotationSpeed p = None \<longrightarrow> rotationSpeed c = 0.005) \<and>
     (param_orbitSpeed p = None \<longrightarrow> orbitSpeed c = 0.001) \<and>
     (param_hasRings p = None \<longrightarrow> hasRings c = False) \<and>
     (param_ringColor p = None \<longrightarrow> ringColor c = white) \<and>
     (param_radius p \<noteq> None \<and> param_radius p \<noteq> Some 0 \<longrightarrow>
        Some (radius c) = param_radius p) \<and>
     (param_color p \<noteq> None \<and> param_color p \<noteq> Some 0 \<longrightarrow>
        Some (color c) = param_color p) \<and>
     (param_atmosphereColor p \<noteq> None \<and> param_atmosphereColor p \<noteq> Some 0 \<longrightarrow>
        Some (atmosphereColor c) = param_atmosphereColor p) \<and>
     (param_atmosphereThickness p \<noteq> None \<and> param_atmosphereThickness p \<noteq> Some 0 \<longrightarrow>
        Some (atmosphereThickness c) = param_atmosphereThickness p) \<and>
     (param_atmosphereOpacity p \<noteq> None \<and> param_atmosphereOpacity p \<noteq> Some 0 \<longrightarrow>
        Some (atmosphereOpacity c) = param_atmosphereOpacity p) \<and>
     (param_orbitRadius p \<noteq> None \<longrightarrow> Some (orbitRadius c) = param_orbitRadius p) \<and>
     (param_rotationSpeed p \<noteq> None \<and> param_rotationSpeed p \<noteq> Some 0 \<longrightarrow>
        Some (rotationSpeed c) = param_rotationSpeed p) \<and>
     (param_orbitSpeed p \<noteq> None \<and> param_orbitSpeed p \<noteq> Some 0 \<longrightarrow>
        Some (orbitSpeed c) = param_orbitSpeed p) \<and>
     (param_hasRings p \<noteq> None \<longrightarrow> Some (hasRings c) = param_hasRings p) \<and>
     (param_ringColor p \<noteq> None \<and> param_ringColor p \<noteq> Some 0 \<longrightarrow>
        Some (ringColor c) = param_ringColor p) \<and>
     ringInnerRadius c = param_ringInnerRadius p \<and>
     ringOuterRadius c = param_ringOuterRadius p"
  unfolding c_def new_PlanetConfig_def
  by (auto simp add: js_or_simps)

text \<open>
  The statement at Saturn's parameters: what the script supplies is kept, what it leaves
  out is defaulted.
\<close>

theorem PlanetConfig_defaults_and_supplied_witness:
  "radius (new_PlanetConfig saturn_params) = 3.5 \<and>
   color (new_PlanetConfig saturn_params) = 15390392 \<and>
   atmosphereThickness (new_PlanetConfig saturn_params) = 0.1 \<and>
   atmosphereOpacity (new_PlanetConfig saturn_params) = 0.2 \<and>
   orbitRadius (new_PlanetConfig saturn_params) = 90 \<and>
   rotationSpeed (new_PlanetConfig saturn_params) = 0.006 \<and>
   orbitSpeed (new_PlanetConfig saturn_params) = 0.003 \<and>
   hasRings (new_PlanetConfig saturn_params) \<and>
   ringColor (new_PlanetConfig saturn_params) = 12759680 \<and>
   ringInnerRadius (new_PlanetConfig saturn_params) = Some 4.5 \<and>
   ringOuterRadius (new_PlanetConfig saturn_params) = Some 7"
  using PlanetConfig_defaults_and_supplied [of saturn_params]
  by (simp add: saturn_params_def no_params_def)

text \<open>
  Claim C2 as it is written fails at the parameters \<^verbatim>\<open>{color: 0x000000}\<close>: the colour
  black is supplied and the configuration is white, and the ring radii, which are left
  out, are not populated.
\<close>

theorem PlanetConfig_supplied_kept_counterexample:
  "param_color black_params = Some 0 \<and>
   color (new_PlanetConfig black_params) = 16777215 \<and>
   param_ringInnerRadius black_params = None \<and>
   ringInnerRadius (new_PlanetConfig black_params) = None \<and>
   ringOuterRadius (new_PlanetConfig black_params) = None"
  by (simp add: black_params_def no_params_def new_PlanetConfig_def js_or_simps white_def)

text \<open>
  Claim C4 at the parameters \<^verbatim>\<open>{color: 0x000000}\<close>: the atmosphere colour is left
  out and the colour is given, black, and the constructed atmosphere colour is white.
\<close>

theorem PlanetConfig_black_atmosphereColor:
  "param_atmosphereColor black_params = None \<and>
   param_color black_params = Some 0 \<and>
   atmosphereColor (new_PlanetConfig black_params) = 16777215"
  by (simp add: black_params_def no_params_def new_PlanetConfig_def js_or_simps white_def)

text \<open>Where the given colour is not zero, it is the atmosphere colour.\<close>

lemma PlanetConfig_atmosphereColor_from_color:
  assumes "param_atmosphereColor p = None" and "param_color p = Some v" and "v \<noteq> 0"
  shows "atmosphereColor (new_PlanetConfig p) = v"
  using assms by (simp add: new_PlanetConfig_def js_or_simps)

text \<open>An omitted atmosphere colour is always the colour of the constructed configuration.\<close>

lemma PlanetConfig_atmosphereColor_is_color:
  assumes "param_atmosphereColor p = None"
  shows "atmosphereColor (new_PlanetConfig p) = color (new_PlanetConfig p)"
  using assms by (cases "param_color p") (simp_all add: new_PlanetConfig_def js_or_simps)

section \<open>The store under \<open>updatePlanets\<close>\<close>

subsection \<open>One planet\<close>

lemma length_update_planet: "length (update_planet t e h) = length h"
  by (simp add: update_planet_def Let_def)

lemma update_planet_other:
  "r \<noteq> group e \<Longrightarrow> r \<noteq> mesh e \<Longrightarrow> update_planet t e h ! r = h ! r"
  by (simp add: update_planet_def Let_def)

lemma update_planet_group:
  "group e < length h \<Longrightarrow> group e \<noteq> mesh e \<Longrightarrow>
   update_planet t e h ! group e =
     (h ! group e)\<lparr>position_x := cos (t * orbitSpeed (config e)) * orbitRadius (config e),
                   position_z := sin (t * orbitSpeed (config e)) * orbitRadius (config e)\<rparr>"
  by (simp add: update_planet_def Let_def)

lemma update_planet_mesh:
  "mesh e < length h \<Longrightarrow> group e \<noteq> mesh e \<Longrightarrow>
   update_planet t e h ! mesh e =
     (h ! mesh e)\<lparr>rotation_y :=
        double_add (rotation_y (h ! mesh e)) (rotationSpeed (config e))\<rparr>"
  by (simp add: update_planet_def Let_def)

lemma same_but_motion_refl: "same_but_motion a a"
  by (simp add: same_but_motion_def)

lemma same_but_motion_trans:
  "same_but_motion a b \<Longrightarrow> same_but_motion b c \<Longrightarrow> same_but_motion a c"
  by (simp add: same_but_motion_def)

lemma same_but_motion_updates:
  "same_but_motion (a\<lparr>position_x := x\<rparr>) a"
  "same_but_motion (a\<lparr>position_z := z\<rparr>) a"
  "same_but_motion (a\<lparr>rotation_y := y\<rparr>) a"
  by (simp_all add: same_but_motion_def)

lemma same_but_motion_list_update:
  assumes "same_but_motion v (h ! i)" and "r < length h"
  shows "same_but_motion (h[i := v] ! r) (h ! r)"
  using assms by (cases "r = i") (simp_all add: same_but_motion_refl)

lemma update_planet_same_but_motion:
  assumes "r < length h"
  shows "same_but_motion (update_planet t e h ! r) (h ! r)"
proof -
  define h1 where "h1 = h[mesh e := (h ! mesh e)
      \<lparr>rotation_y :=
        double_add (rotation_y (h ! mesh e)) (rotationSpeed (config e))\<rparr>]"
  define h2 where "h2 = h1[group e := (h1 ! group e)
      \<lparr>position_x := cos (t * orbitSpeed (config e)) * orbitRadius (config e)\<rparr>]"
  define h3 where "h3 = h2[group e := (h2 ! group e)
      \<lparr>position_z := sin (t * orbitSpeed (config e)) * orbitRadius (config e)\<rparr>]"
  have eq: "update_planet t e h = h3"
    by (simp add: update_planet_def Let_def h1_def h2_def h3_def)
  have 1: "same_but_motion (h1 ! r) (h ! r)"
    unfolding h1_def using assms
    by (intro same_but_motion_list_update same_but_motion_updates)
  have 2: "same_but_motion (h2 ! r) (h1 ! r)"
    unfolding h2_def using assms
    by (intro same_but_motion_list_update same_but_motion_updates) (simp add: h1_def)
  have 3: "same_but_motion (h3 ! r) (h2 ! r)"
    unfolding h3_def using assms
    by (intro same_but_motion_list_update same_but_motion_updates) (simp add: h1_def h2_def)
  show ?thesis
    unfolding eq using 1 2 3 by (blast intro: same_but_motion_trans)
qed

subsection \<open>The loop over the registry\<close>

lemma length_fold_update:
  "length (fold (\<lambda>(name, planet). update_planet t planet) es h) = length h"
  by (induction es arbitrary: h) (simp_all add: length_update_planet split: prod.splits)

lemma entry_refs_Cons: "entry_refs ((n, e) # es) = group e # mesh e # entry_refs es"
  by (simp add: entry_refs_def)

lemma entry_refs_Nil: "entry_refs [] = []"
  by (simp add: entry_refs_def)

lemma entry_refs_mem:
  "(n, e) \<in> set es \<Longrightarrow> group e \<in> set (entry_refs es) \<and> mesh e \<in> set (entry_refs es)"
  by (induction es) (auto simp add: entry_refs_def)

lemma fold_update_other:
  "r \<notin> set (entry_refs es) \<Longrightarrow>
   fold (\<lambda>(name, planet). update_planet t planet) es h ! r = h ! r"
proof (induction es arbitrary: h)
  case Nil
  then show ?case by simp
next
  case (Cons x es)
  obtain n e where x: "x = (n, e)" by (cases x)
  from Cons.prems have r: "r \<noteq> group e" "r \<noteq> mesh e" "r \<notin> set (entry_refs es)"
    by (simp_all add: x entry_refs_Cons)
  show ?case
    using Cons.IH [OF r(3)] r by (simp add: x update_planet_other)
qed

lemma fold_update_same_but_motion:
  "r < length h \<Longrightarrow>
   same_but_motion (fold (\<lambda>(name, planet). update_planet t planet) es h ! r) (h ! r)"
proof (induction es arbitrary: h)
  case Nil
  then show ?case by (simp add: same_but_motion_refl)
next
  case (Cons x es)
  obtain n e where x: "x = (n, e)" by (cases x)
  have "r < length (update_planet t e h)"
    using Cons.prems by (simp add: length_update_planet)
  from Cons.IH [OF this] update_planet_same_but_motion [OF Cons.prems, of t e]
  show ?case by (simp add: x) (blast intro: same_but_motion_trans)
qed

lemma fold_update_entry:
  assumes "(n, e) \<in> set es" and "distinct (entry_refs es)"
    and "list_all (\<lambda>r. r < length h) (entry_refs es)"
  shows "fold (\<lambda>(name, planet). update_planet t planet) es h ! group e =
           (h ! group e)\<lparr>position_x := cos (t * orbitSpeed (config e)) * orbitRadius (config e),
                         position_z := sin (t * orbitSpeed (config e)) * orbitRadius (config e)\<rparr>
       \<and> fold (\<lambda>(name, planet). update_planet t planet) es h ! mesh e =
           (h ! mesh e)\<lparr>rotation_y :=
        double_add (rotation_y (h ! mesh e)) (rotationSpeed (config e))\<rparr>"
  using assms
proof (induction es arbitrary: h)
  case Nil
  then show ?case by simp
next
  case (Cons x es)
  obtain m d where x: "x = (m, d)" by (cases x)
  from Cons.prems(2) have dist: "group d \<noteq> mesh d" "group d \<notin> set (entry_refs es)"
    "mesh d \<notin> set (entry_refs es)" "distinct (entry_refs es)"
    by (simp_all add: x entry_refs_Cons)
  from Cons.prems(3) have bound: "group d < length h" "mesh d < length h"
    "list_all (\<lambda>r. r < length h) (entry_refs es)"
    by (simp_all add: x entry_refs_Cons)
  show ?case
  proof (cases "(n, e) = (m, d)")
    case True
    then have e: "e = d" by simp
    show ?thesis
      using dist bound
      by (simp add: x e fold_update_other update_planet_group update_planet_mesh)
  next
    case False
    with Cons.prems(1) have mem: "(n, e) \<in> set es" by (auto simp add: x)
    from entry_refs_mem [OF mem] dist
    have ne: "group e \<noteq> group d" "group e \<noteq> mesh d" "mesh e \<noteq> group d" "mesh e \<noteq> mesh d"
      by auto
    have "list_all (\<lambda>r. r < length (update_planet t d h)) (entry_refs es)"
      using bound by (simp add: length_update_planet)
    from Cons.IH [OF mem dist(4) this] ne
    show ?thesis by (simp add: x update_planet_other)
  qed
qed

section \<open>The store under \<open>createPlanet\<close>\<close>

lemma createPlanet_fst: "fst (createPlanet name cfg s) = length (objects s)"
  by (simp add: createPlanet_def alloc_def Let_def split: prod.splits)

lemma createPlanet_planets:
  "planets (snd (createPlanet name cfg s)) =
     Map_set name \<lparr>group = length (objects s), config = cfg, mesh = Suc (length (objects s))\<rparr>
       (planets s)"
  by (simp add: createPlanet_def alloc_def Let_def split: prod.splits)

lemma createPlanet_sun: "sun (snd (createPlanet name cfg s)) = sun s"
  by (simp add: createPlanet_def alloc_def Let_def split: prod.splits)

lemma createPlanet_planetGroup: "planetGroup (snd (createPlanet name cfg s)) = planetGroup s"
  by (simp add: createPlanet_def alloc_def Let_def split: prod.splits)

lemma createPlanet_objects:
  assumes "planetGroup s < length (objects s)"
  shows "objects (snd (createPlanet name cfg s)) =
     (objects s)[planetGroup s := (objects s ! planetGroup s)
        \<lparr>children := children (objects s ! planetGroup s) @ [length (objects s)]\<rparr>]
     @ [(new_object Group)\<lparr>children :=
           map (\<lambda>i. length (objects s) + 2 + i)
             [0 ..< length (atmosphere_of cfg) + length (rings_of cfg)]
           @ [Suc (length (objects s))]\<rparr>,
        new_object (Mesh (SphereGeometry (radius cfg) 32 32)
          (MeshStandardMaterial (color cfg) 0.7 0.3))]
     @ atmosphere_of cfg @ rings_of cfg"
  using assms
  by (simp add: createPlanet_def alloc_def add_def Let_def atmosphere_of_def rings_of_def
      nth_append list_update_append new_object_def upt_rec)

section \<open>Invariants\<close>

subsection \<open>The registry\<close>

lemma map_of_Map_set: "map_of (Map_set k v m) = (map_of m)(k \<mapsto> v)"
  by (induction m) auto

lemma keys_Map_set: "fst ` set (Map_set k v m) = insert k (fst ` set m)"
  by (induction m) auto

lemma distinct_keys_Map_set:
  "distinct (map fst m) \<Longrightarrow> distinct (map fst (Map_set k v m))"
  by (induction m) (auto simp add: keys_Map_set)

lemma set_Map_set: "set (Map_set k v m) \<subseteq> insert (k, v) (set m)"
  by (induction m) auto

lemma count_Map_set:
  "distinct (map fst m) \<Longrightarrow> length (filter (\<lambda>x. fst x = k) (Map_set k v m)) = 1"
proof (induction m)
  case Nil
  then show ?case by simp
next
  case (Cons x m)
  show ?case
  proof (cases "fst x = k")
    case True
    with Cons.prems have "k \<notin> fst ` set m" by auto
    then have "filter (\<lambda>x. fst x = k) m = []"
      by (auto simp add: filter_empty_conv)
    with True show ?thesis by simp
  next
    case False
    with Cons show ?thesis by simp
  qed
qed

lemma set_entry_refs_Map_set:
  "set (entry_refs (Map_set k e m)) \<subseteq> insert (group e) (insert (mesh e) (set (entry_refs m)))"
proof (induction m)
  case Nil
  then show ?case by (simp add: entry_refs_Cons entry_refs_Nil)
next
  case (Cons x m)
  obtain n d where x: "x = (n, d)" by (cases x)
  from Cons show ?case by (auto simp add: x entry_refs_Cons)
qed

lemma distinct_entry_refs_Map_set:
  assumes "distinct (entry_refs m)" and "group e \<notin> set (entry_refs m)"
    and "mesh e \<notin> set (entry_refs m)" and "group e \<noteq> mesh e"
  shows "distinct (entry_refs (Map_set k e m))"
  using assms
proof (induction m)
  case Nil
  then show ?case by (simp add: entry_refs_Cons entry_refs_Nil)
next
  case (Cons x m)
  obtain n d where x: "x = (n, d)" by (cases x)
  from Cons.prems have tl: "distinct (entry_refs m)" "group e \<notin> set (entry_refs m)"
    "mesh e \<notin> set (entry_refs m)"
    and hd: "group d \<noteq> mesh d" "group d \<notin> set (entry_refs m)" "mesh d \<notin> set (entry_refs m)"
      "group e \<noteq> group d" "group e \<noteq> mesh d" "mesh e \<noteq> group d" "mesh e \<noteq> mesh d"
    by (auto simp add: x entry_refs_Cons)
  show ?case
  proof (cases "n = k")
    case True
    with tl Cons.prems(4) show ?thesis by (simp add: x entry_refs_Cons)
  next
    case False
    from set_entry_refs_Map_set [of k e m] hd
    have "group d \<notin> set (entry_refs (Map_set k e m))" "mesh d \<notin> set (entry_refs (Map_set k e m))"
      by auto
    with Cons.IH [OF tl Cons.prems(4)] hd False show ?thesis
      by (simp add: x entry_refs_Cons)
  qed
qed

subsection \<open>The constructor\<close>

lemma length_add: "length (add p c h) = length h"
  by (simp add: add_def)

lemma length_orbitLines_loop: "length (orbitLines_loop n i r h) = length h + n"
  by (induction n i r h rule: orbitLines_loop.induct)
     (simp_all add: alloc_def Let_def length_add)

lemma new_SolarSystem_fields:
  "planets new_SolarSystem = []" "sun new_SolarSystem = 1" "planetGroup new_SolarSystem = 0"
  "length (objects new_SolarSystem) = 12"
  by (simp_all add: new_SolarSystem_def createSun_def createOrbitLines_def alloc_def Let_def
      length_add length_orbitLines_loop)

lemma refs_ok_new_SolarSystem: "refs_ok new_SolarSystem"
  by (simp add: refs_ok_def new_SolarSystem_fields entry_refs_Nil)

lemma on_plane_new_SolarSystem: "on_plane new_SolarSystem"
  by (simp add: on_plane_def new_SolarSystem_fields)

subsection \<open>Fields that \<open>updatePlanets\<close> keeps\<close>

lemma updatePlanets_fields:
  "planets (updatePlanets t s) = planets s" "sun (updatePlanets t s) = sun s"
  "planetGroup (updatePlanets t s) = planetGroup s"
  "length (objects (updatePlanets t s)) = length (objects s)"
  by (simp_all add: updatePlanets_def Let_def length_fold_update)

lemma updatePlanets_sun_object:
  assumes "refs_ok s"
  shows "objects (updatePlanets t s) ! sun s =
    (objects s ! sun s)\<lparr>rotation_y := rotation_y (objects s ! sun s) + 0.001\<rparr>"
proof -
  from assms have "sun s \<notin> set (entry_refs (planets s))" "sun s < length (objects s)"
    by (simp_all add: refs_ok_def)
  then show ?thesis
    by (simp add: updatePlanets_def Let_def length_fold_update fold_update_other)
qed

lemma updatePlanets_entry_objects:
  assumes "refs_ok s" and "(n, e) \<in> set (planets s)"
  shows "objects (updatePlanets t s) ! group e =
           (objects s ! group e)
             \<lparr>position_x := cos (t * orbitSpeed (config e)) * orbitRadius (config e),
              position_z := sin (t * orbitSpeed (config e)) * orbitRadius (config e)\<rparr>"
    and "objects (updatePlanets t s) ! mesh e =
           (objects s ! mesh e)
             \<lparr>rotation_y :=
        double_add (rotation_y (objects s ! mesh e)) (rotationSpeed (config e))\<rparr>"
proof -
  from assms(1) have d: "distinct (entry_refs (planets s))"
    and b: "list_all (\<lambda>r. r < length (objects s)) (entry_refs (planets s))"
    and sn: "sun s \<notin> set (entry_refs (planets s))"
    by (simp_all add: refs_ok_def)
  from entry_refs_mem [OF assms(2)] sn have ne: "sun s \<noteq> group e" "sun s \<noteq> mesh e"
    by auto
  note f = fold_update_entry [OF assms(2) d b, of t]
  show "objects (updatePlanets t s) ! group e =
           (objects s ! group e)
             \<lparr>position_x := cos (t * orbitSpeed (config e)) * orbitRadius (config e),
              position_z := sin (t * orbitSpeed (config e)) * orbitRadius (config e)\<rparr>"
    using f ne by (simp add: updatePlanets_def Let_def)
  show "objects (updatePlanets t s) ! mesh e =
           (objects s ! mesh e)
             \<lparr>rotation_y :=
        double_add (rotation_y (objects s ! mesh e)) (rotationSpeed (config e))\<rparr>"
    using f ne by (simp add: updatePlanets_def Let_def)
qed

lemma refs_ok_updatePlanets: "refs_ok s \<Longrightarrow> refs_ok (updatePlanets t s)"
  by (simp add: refs_ok_def updatePlanets_fields)

lemma on_plane_updatePlanets:
  assumes "refs_ok s" and "on_plane s"
  shows "on_plane (updatePlanets t s)"
  unfolding on_plane_def list_all_iff updatePlanets_fields
proof (intro ballI)
  fix x assume x: "x \<in> set (planets s)"
  obtain n e where xe: "x = (n, e)" by (cases x)
  from assms(2) x have "position_y (objects s ! group e) = 0"
    by (auto simp add: on_plane_def list_all_iff xe)
  with updatePlanets_entry_objects(1) [OF assms(1) x [unfolded xe], of t]
  show "case x of (name, e) \<Rightarrow>
          position_y (objects (updatePlanets t s) ! group e) = 0 \<and>
          (orbitRadius (config e) = 0 \<longrightarrow>
             position_x (objects (updatePlanets t s) ! group e) = 0 \<and>
             position_z (objects (updatePlanets t s) ! group e) = 0)"
    by (simp add: xe)
qed

subsection \<open>What \<open>createPlanet\<close> keeps\<close>

lemma length_createPlanet:
  assumes "planetGroup s < length (objects s)"
  shows "length (objects (snd (createPlanet name cfg s))) =
    length (objects s) + 2 + length (atmosphere_of cfg) + length (rings_of cfg)"
  by (simp add: createPlanet_objects [OF assms])

lemma createPlanet_old_object:
  assumes "planetGroup s < length (objects s)" and "r < length (objects s)"
  shows "(objects (snd (createPlanet name cfg s)) ! r)\<lparr>children := cs\<rparr> =
         (objects s ! r)\<lparr>children := cs\<rparr>"
  using assms
  by (cases "r = planetGroup s") (simp_all add: createPlanet_objects nth_append)

lemma createPlanet_old_position:
  assumes "planetGroup s < length (objects s)" and "r < length (objects s)"
  shows "position_x (objects (snd (createPlanet name cfg s)) ! r) = position_x (objects s ! r)"
    and "position_y (objects (snd (createPlanet name cfg s)) ! r) = position_y (objects s ! r)"
    and "position_z (objects (snd (createPlanet name cfg s)) ! r) = position_z (objects s ! r)"
  using arg_cong [OF createPlanet_old_object [where cs = "[]", OF assms], of position_x name cfg]
    arg_cong [OF createPlanet_old_object [where cs = "[]", OF assms], of position_y name cfg]
    arg_cong [OF createPlanet_old_object [where cs = "[]", OF assms], of position_z name cfg]
  by simp_all

lemma createPlanet_new_group:
  assumes "planetGroup s < length (objects s)"
  shows "objects (snd (createPlanet name cfg s)) ! length (objects s) =
    (new_object Group)\<lparr>children :=
       map (\<lambda>i. length (objects s) + 2 + i)
         [0 ..< length (atmosphere_of cfg) + length (rings_of cfg)]
       @ [Suc (length (objects s))]\<rparr>"
  by (simp add: createPlanet_objects [OF assms] nth_append)

lemma refs_ok_createPlanet:
  assumes "refs_ok s"
  shows "refs_ok (snd (createPlanet name cfg s))"
proof -
  let ?g = "length (objects s)"
  let ?e = "\<lparr>group = ?g, config = cfg, mesh = Suc ?g\<rparr>"
  from assms have pg: "planetGroup s < ?g" and sn: "sun s < ?g"
    and b: "\<forall>r\<in>set (entry_refs (planets s)). r < ?g"
    and d: "distinct (entry_refs (planets s))" "sun s \<notin> set (entry_refs (planets s))"
    and k: "distinct (map fst (planets s))"
    by (simp_all add: refs_ok_def list_all_iff)
  from b have fresh: "group ?e \<notin> set (entry_refs (planets s))"
    "mesh ?e \<notin> set (entry_refs (planets s))"
    by auto
  have sub: "set (entry_refs (Map_set name ?e (planets s)))
      \<subseteq> insert ?g (insert (Suc ?g) (set (entry_refs (planets s))))"
    using set_entry_refs_Map_set [of name ?e "planets s"] by simp
  have 1: "distinct (entry_refs (Map_set name ?e (planets s)))"
    by (rule distinct_entry_refs_Map_set [OF d(1) fresh]) simp
  have 2: "sun s \<notin> set (entry_refs (Map_set name ?e (planets s)))"
    using sub d(2) sn by auto
  have 3: "\<forall>r\<in>set (entry_refs (Map_set name ?e (planets s))).
      r < ?g + 2 + length (atmosphere_of cfg) + length (rings_of cfg)"
    using sub b by fastforce
  show ?thesis
    using 1 2 3 pg sn k
    by (simp add: refs_ok_def list_all_iff createPlanet_planets createPlanet_sun
        createPlanet_planetGroup length_createPlanet distinct_keys_Map_set)
qed

lemma on_plane_createPlanet:
  assumes "refs_ok s" and "on_plane s"
  shows "on_plane (snd (createPlanet name cfg s))"
  unfolding on_plane_def list_all_iff createPlanet_planets
proof (intro ballI)
  let ?g = "length (objects s)"
  let ?e = "\<lparr>group = ?g, config = cfg, mesh = Suc ?g\<rparr>"
  let ?s' = "snd (createPlanet name cfg s)"
  fix x assume x: "x \<in> set (Map_set name ?e (planets s))"
  obtain n e where xe: "x = (n, e)" by (cases x)
  from assms(1) have pg: "planetGroup s < ?g"
    and b: "\<forall>r\<in>set (entry_refs (planets s)). r < ?g"
    by (simp_all add: refs_ok_def list_all_iff)
  from x set_Map_set [of name ?e "planets s"]
  consider "e = ?e" | "(n, e) \<in> set (planets s)"
    by (auto simp add: xe)
  then have "position_y (objects ?s' ! group e) = 0 \<and>
          (orbitRadius (config e) = 0 \<longrightarrow>
             position_x (objects ?s' ! group e) = 0 \<and>
             position_z (objects ?s' ! group e) = 0)"
  proof cases
    case 1
    then show ?thesis
      by (simp add: createPlanet_new_group [OF pg] new_object_def)
  next
    case 2
    with b entry_refs_mem [OF 2] have "group e < ?g" by blast
    from createPlanet_old_position [OF pg this, where name = name and cfg = cfg] assms(2) 2
    show ?thesis
      by (auto simp add: on_plane_def list_all_iff)
  qed
  then show "case x of (name', e) \<Rightarrow>
          position_y (objects ?s' ! group e) = 0 \<and>
          (orbitRadius (config e) = 0 \<longrightarrow>
             position_x (objects ?s' ! group e) = 0 \<and>
             position_z (objects ?s' ! group e) = 0)"
    by (simp add: xe)
qed

subsection \<open>Every state of a history\<close>

lemma run_Nil: "run [] = new_SolarSystem"
  by (simp add: run_def)

lemma run_snoc: "run (cmds @ [c]) = exec c (run cmds)"
  by (simp add: run_def)

lemma run_invariants: "refs_ok (run cmds) \<and> on_plane (run cmds)"
proof (induction cmds rule: rev_induct)
  case Nil
  show ?case by (simp add: run_Nil refs_ok_new_SolarSystem on_plane_new_SolarSystem)
next
  case (snoc c cmds)
  then show ?case
    by (cases c)
       (simp_all add: run_snoc refs_ok_createPlanet on_plane_createPlanet
          refs_ok_updatePlanets on_plane_updatePlanets)
qed

lemma Map_get_mem: "Map_get m k = Some v \<Longrightarrow> (k, v) \<in> set m"
  by (simp add: Map_get_def map_of_SomeD)

lemma run_planetGroup_bound: "planetGroup (run cmds) < length (objects (run cmds))"
  using run_invariants [of cmds] by (simp add: refs_ok_def)

lemma createPlanet_child_payloads:
  assumes "planetGroup s < length (objects s)"
  shows "child_payloads (snd (createPlanet name cfg s)) (length (objects s)) =
    map payload (atmosphere_of cfg @ rings_of cfg)
    @ [Mesh (SphereGeometry (radius cfg) 32 32) (MeshStandardMaterial (color cfg) 0.7 0.3)]"
  by (simp add: child_payloads_def createPlanet_objects [OF assms] nth_append
      atmosphere_of_def rings_of_def new_object_def upt_rec)

section \<open>Orbital motion\<close>

text \<open>
  Claim C1. Whatever calls have been made so far, for every body registered under a name,
  with orbit radius \<open>R\<close> and orbit speed \<open>S\<close> in its configuration, after
  \<^verbatim>\<open>updatePlanets(t)\<close> the position of its group is \<open>x = R * cos (S * t)\<close>,
  \<open>z = R * sin (S * t)\<close>, \<open>y = 0\<close>. A body with orbit radius 0 is at the origin
  before the call and after it.
\<close>

theorem updatePlanets_position:
  assumes "Map_get (planets (run cmds)) name = Some e"
  shows "position_x (objects (updatePlanets t (run cmds)) ! group e) =
           orbitRadius (config e) * cos (orbitSpeed (config e) * t) \<and>
         position_z (objects (updatePlanets t (run cmds)) ! group e) =
           orbitRadius (config e) * sin (orbitSpeed (config e) * t) \<and>
         position_y (objects (updatePlanets t (run cmds)) ! group e) = 0 \<and>
         (orbitRadius (config e) = 0 \<longrightarrow>
            position_x (objects (run cmds) ! group e) = 0 \<and>
            position_y (objects (run cmds) ! group e) = 0 \<and>
            position_z (objects (run cmds) ! group e) = 0 \<and>
            position_x (objects (updatePlanets t (run cmds)) ! group e) = 0 \<and>
            position_z (objects (updatePlanets t (run cmds)) ! group e) = 0)"
proof -
  have inv: "refs_ok (run cmds)" "on_plane (run cmds)"
    using run_invariants [of cmds] by simp_all
  have mem: "(name, e) \<in> set (planets (run cmds))"
    using assms by (rule Map_get_mem)
  from inv(2) mem have plane: "position_y (objects (run cmds) ! group e) = 0"
    "orbitRadius (config e) = 0 \<longrightarrow>
       position_x (objects (run cmds) ! group e) = 0 \<and>
       position_z (objects (run cmds) ! group e) = 0"
    by (auto simp add: on_plane_def list_all_iff)
  from updatePlanets_entry_objects(1) [OF inv(1) mem, of t] plane
  show ?thesis by (simp add: mult.commute)
qed

text \<open>The registry of the script when the first frame starts.\<close>

lemma script_start:
  "planets (run script_commands) =
    [(''mercury'', \<lparr>group = 12, config = new_PlanetConfig mercury_params, mesh = 13\<rparr>),
     (''venus'', \<lparr>group = 15, config = new_PlanetConfig venus_params, mesh = 16\<rparr>),
     (''earth'', \<lparr>group = 18, config = new_PlanetConfig earth_params, mesh = 19\<rparr>),
     (''mars'', \<lparr>group = 21, config = new_PlanetConfig mars_params, mesh = 22\<rparr>),
     (''jupiter'', \<lparr>group = 24, config = new_PlanetConfig jupiter_params, mesh = 25\<rparr>),
     (''saturn'', \<lparr>group = 27, config = new_PlanetConfig saturn_params, mesh = 28\<rparr>),
     (''uranus'', \<lparr>group = 31, config = new_PlanetConfig uranus_params, mesh = 32\<rparr>),
     (''neptune'', \<lparr>group = 34, config = new_PlanetConfig neptune_params, mesh = 35\<rparr>)]"
  "length (objects (run script_commands)) = 37"
  "sun (run script_commands) = 1"
  "planetGroup (run script_commands) = 0"
proof -
  have cfg: "atmosphereOpacity (new_PlanetConfig mercury_params) > 0"
    "atmosphereOpacity (new_PlanetConfig venus_params) > 0"
    "atmosphereOpacity (new_PlanetConfig earth_params) > 0"
    "atmosphereOpacity (new_PlanetConfig mars_params) > 0"
    "atmosphereOpacity (new_PlanetConfig jupiter_params) > 0"
    "atmosphereOpacity (new_PlanetConfig saturn_params) > 0"
    "atmosphereOpacity (new_PlanetConfig uranus_params) > 0"
    "atmosphereOpacity (new_PlanetConfig neptune_params) > 0"
    "\<not> hasRings (new_PlanetConfig mercury_params)"
    "\<not> hasRings (new_PlanetConfig venus_params)"
    "\<not> hasRings (new_PlanetConfig earth_params)"
    "\<not> hasRings (new_PlanetConfig mars_params)"
    "\<not> hasRings (new_PlanetConfig jupiter_params)"
    "hasRings (new_PlanetConfig saturn_params)"
    "\<not> hasRings (new_PlanetConfig uranus_params)"
    "\<not> hasRings (new_PlanetConfig neptune_params)"
    by (simp_all add: new_PlanetConfig_def js_or_simps no_params_def
        mercury_params_def venus_params_def earth_params_def mars_params_def
        jupiter_params_def saturn_params_def uranus_params_def neptune_params_def)
  note ev = run_def script_commands_def planetConfigs_def createPlanet_planets
    createPlanet_sun createPlanet_planetGroup length_createPlanet new_SolarSystem_fields
    atmosphere_of_def rings_of_def cfg
  show "planets (run script_commands) =
    [(''mercury'', \<lparr>group = 12, config = new_PlanetConfig mercury_params, mesh = 13\<rparr>),
     (''venus'', \<lparr>group = 15, config = new_PlanetConfig venus_params, mesh = 16\<rparr>),
     (''earth'', \<lparr>group = 18, config = new_PlanetConfig earth_params, mesh = 19\<rparr>),
     (''mars'', \<lparr>group = 21, config = new_PlanetConfig mars_params, mesh = 22\<rparr>),
     (''jupiter'', \<lparr>group = 24, config = new_PlanetConfig jupiter_params, mesh = 25\<rparr>),
     (''saturn'', \<lparr>group = 27, config = new_PlanetConfig saturn_params, mesh = 28\<rparr>),
     (''uranus'', \<lparr>group = 31, config = new_PlanetConfig uranus_params, mesh = 32\<rparr>),
     (''neptune'', \<lparr>group = 34, config = new_PlanetConfig neptune_params, mesh = 35\<rparr>)]"
    by (simp add: ev)
  show "length (objects (run script_commands)) = 37"
    by (simp add: ev)
  show "sun (run script_commands) = 1"
    by (simp add: ev)
  show "planetGroup (run script_commands) = 0"
    by (simp add: ev)
qed

lemma earth_config:
  "orbitRadius (new_PlanetConfig earth_params) = 45"
  "orbitSpeed (new_PlanetConfig earth_params) = 0.006"
  "rotationSpeed (new_PlanetConfig earth_params) = 0.005"
  by (simp_all add: new_PlanetConfig_def js_or_simps no_params_def earth_params_def)

text \<open>
  The statement at the script's Earth (orbit radius 45, orbit speed 0.006) at time 1000,
  and at a body registered with no parameters, whose orbit radius is the default 0.
\<close>

theorem updatePlanets_position_witness:
  "position_x (objects (updatePlanets 1000 (run script_commands)) ! 18) = 45 * cos 6 \<and>
   position_z (objects (updatePlanets 1000 (run script_commands)) ! 18) = 45 * sin 6 \<and>
   position_y (objects (updatePlanets 1000 (run script_commands)) ! 18) = 0 \<and>
   position_x (objects (updatePlanets 1000
      (run [CreatePlanet ''centre'' (new_PlanetConfig no_params)])) ! 12) = 0 \<and>
   position_y (objects (updatePlanets 1000
      (run [CreatePlanet ''centre'' (new_PlanetConfig no_params)])) ! 12) = 0 \<and>
   position_z (objects (updatePlanets 1000
      (run [CreatePlanet ''centre'' (new_PlanetConfig no_params)])) ! 12) = 0"
proof -
  have centre: "Map_get (planets (run [CreatePlanet ''centre'' (new_PlanetConfig no_params)]))
      ''centre'' = Some \<lparr>group = 12, config = new_PlanetConfig no_params, mesh = 13\<rparr>"
    by (simp add: Map_get_def run_def createPlanet_planets new_SolarSystem_fields)
  have zero: "orbitRadius (new_PlanetConfig no_params) = 0"
    by (simp add: new_PlanetConfig_def no_params_def js_or_simps)
  have earth: "Map_get (planets (run script_commands)) ''earth'' =
      Some \<lparr>group = 18, config = new_PlanetConfig earth_params, mesh = 19\<rparr>"
    by (simp add: Map_get_def script_start)
  show ?thesis
    using updatePlanets_position [OF earth, of 1000] updatePlanets_position [OF centre, of 1000]
    by (simp add: earth_config zero)
qed

subsection \<open>Repeated calls\<close>

lemma fold_updatePlanets_fields:
  "planets (fold updatePlanets ts s) = planets s"
  by (induction ts arbitrary: s) (simp_all add: updatePlanets_fields)

lemma refs_ok_fold_updatePlanets: "refs_ok s \<Longrightarrow> refs_ok (fold updatePlanets ts s)"
  by (induction ts arbitrary: s) (simp_all add: refs_ok_updatePlanets)

lemma fold_updatePlanets_rotation:
  assumes "refs_ok s" and "(n, e) \<in> set (planets s)"
  shows "rotation_y (objects (fold updatePlanets ts s) ! mesh e) =
    ((\<lambda>y. double_add y (rotationSpeed (config e))) ^^ length ts)
      (rotation_y (objects s ! mesh e))"
  using assms
proof (induction ts arbitrary: s)
  case Nil
  then show ?case by simp
next
  case (Cons t ts)
  have "refs_ok (updatePlanets t s)" "(n, e) \<in> set (planets (updatePlanets t s))"
    using Cons.prems by (simp_all add: refs_ok_updatePlanets updatePlanets_fields)
  from Cons.IH [OF this] updatePlanets_entry_objects(2) [OF Cons.prems, of t]
  show ?case by (simp del: funpow.simps add: funpow_Suc_right)
qed

subsection \<open>Rounded sums\<close>

lemma exponent_search_eq:
  assumes "- 1022 \<le> k" and "k \<le> int n - 1022" and "2 powi k \<le> a" and "a < 2 powi (k + 1)"
  shows "exponent_search n a = k"
  using assms
proof (induction n)
  case 0
  then show ?case by simp
next
  case (Suc n)
  show ?case
  proof (cases "2 powi (int (Suc n) - 1022) \<le> a")
    case True
    with Suc.prems(4) have "(2::real) powi (int (Suc n) - 1022) < 2 powi (k + 1)" by simp
    then have "int (Suc n) - 1022 < k + 1"
      using power_int_increasing [of "k + 1" "int (Suc n) - 1022" "2::real"]
      by (cases "int (Suc n) - 1022 < k + 1") simp_all
    with Suc.prems(2) True show ?thesis by simp
  next
    case False
    with Suc.prems(3) have "k \<noteq> int (Suc n) - 1022" by auto
    with Suc.prems(2) have "k \<le> int n - 1022" by simp
    from Suc.IH [OF Suc.prems(1) this Suc.prems(3,4)] False show ?thesis by simp
  qed
qed

lemma double_exponent_eq:
  assumes "- 1022 \<le> k" and "k \<le> 1023" and "2 powi k \<le> a" and "a < 2 powi (k + 1)"
  shows "double_exponent a = k"
  unfolding double_exponent_def using assms by (intro exponent_search_eq) simp_all

lemma round_double_pos:
  assumes "0 < x" and "- 1022 \<le> k" and "k \<le> 1023" and "2 powi k \<le> x" and "x < 2 powi (k + 1)"
  shows "round_double x = of_int (round_half_even (x / 2 powi (k - 52))) * 2 powi (k - 52)"
  using assms(1) double_exponent_eq [OF assms(2-5)]
  by (simp add: round_double_def Let_def)

text \<open>
  Six additions of the number that the literal \<^verbatim>\<open>0.005\<close> denotes, from 0: the third, the
  fifth and the sixth round, and the sixth sum is one unit in the last place above the
  number nearest to six times the summand.
\<close>

lemma six_rounded_additions:
  "double_add (double_add (double_add (double_add (double_add (double_add 0
     double_0_005) double_0_005) double_0_005) double_0_005) double_0_005) double_0_005 =
   8646911284551353 / 288230376151711744"
proof -
  have 1: "double_add 0 double_0_005 = 5764607523034235 / 1152921504606846976"
    unfolding double_add_def double_0_005_def
    by (subst round_double_pos [where k = "- 8"]) (simp_all add: round_half_even_def Let_def)
  have 2: "double_add (5764607523034235 / 1152921504606846976) double_0_005 =
      5764607523034235 / 576460752303423488"
    unfolding double_add_def double_0_005_def
    by (subst round_double_pos [where k = "- 7"]) (simp_all add: round_half_even_def Let_def)
  have 3: "double_add (5764607523034235 / 576460752303423488) double_0_005 =
      1080863910568919 / 72057594037927936"
    unfolding double_add_def double_0_005_def
    by (subst round_double_pos [where k = "- 7"]) (simp_all add: round_half_even_def Let_def)
  have 4: "double_add (1080863910568919 / 72057594037927936) double_0_005 =
      5764607523034235 / 288230376151711744"
    unfolding double_add_def double_0_005_def
    by (subst round_double_pos [where k = "- 6"]) (simp_all add: round_half_even_def Let_def)
  have 5: "double_add (5764607523034235 / 288230376151711744) double_0_005 =
      3602879701896397 / 144115188075855872"
    unfolding double_add_def double_0_005_def
    by (subst round_double_pos [where k = "- 6"]) (simp_all add: round_half_even_def Let_def)
  have 6: "double_add (3602879701896397 / 144115188075855872) double_0_005 =
      8646911284551353 / 288230376151711744"
    unfolding double_add_def double_0_005_def
    by (subst round_double_pos [where k = "- 6"]) (simp_all add: round_half_even_def Let_def)
  show ?thesis by (simp only: 1 2 3 4 5 6)
qed

lemma six_times_rounded:
  "round_double (6 * double_0_005) = 8646911284551352 / 288230376151711744"
  unfolding double_0_005_def
  by (subst round_double_pos [where k = "- 6"]) (simp_all add: round_half_even_def Let_def)

lemma createPlanet_new_mesh:
  assumes "planetGroup s < length (objects s)"
  shows "objects (snd (createPlanet name cfg s)) ! Suc (length (objects s)) =
    new_object (Mesh (SphereGeometry (radius cfg) 32 32)
      (MeshStandardMaterial (color cfg) 0.7 0.3))"
  by (simp add: createPlanet_objects [OF assms] nth_append)

lemma drift_start:
  "Map_get (planets (run drift_commands)) ''drift'' =
     Some \<lparr>group = 12, config = new_PlanetConfig drift_params, mesh = 13\<rparr>"
  "rotationSpeed (new_PlanetConfig drift_params) = double_0_005"
  "rotation_y (objects (run drift_commands) ! 13) = 0"
proof -
  show "Map_get (planets (run drift_commands)) ''drift'' =
     Some \<lparr>group = 12, config = new_PlanetConfig drift_params, mesh = 13\<rparr>"
    by (simp add: Map_get_def run_def drift_commands_def createPlanet_planets
        new_SolarSystem_fields)
  show "rotationSpeed (new_PlanetConfig drift_params) = double_0_005"
    by (simp add: new_PlanetConfig_def drift_params_def no_params_def js_or_simps
        double_0_005_def)
  have "planetGroup new_SolarSystem < length (objects new_SolarSystem)"
    by (simp add: new_SolarSystem_fields)
  from createPlanet_new_mesh [OF this, of "''drift''" "new_PlanetConfig drift_params"]
  show "rotation_y (objects (run drift_commands) ! 13) = 0"
    by (simp add: run_def drift_commands_def new_SolarSystem_fields new_object_def)
qed

section \<open>Recomputed position, accumulated rotation\<close>

text \<open>
  Claim C3, as the script computes. For every body registered under a name, a second
  \<^verbatim>\<open>updatePlanets(t)\<close> with the same \<open>t\<close> leaves the x and the z of its position as the
  first call set them. The rotation of its mesh accumulates: every call adds the
  rotation speed \<open>r\<close> of the configuration to it by one rounded addition, so that after
  N calls, at any times \<open>ts\<close>, the \<open>y\<close> rotation of the mesh is what N successive
  rounded additions of \<open>r\<close> make of its starting value.
\<close>

theorem updatePlanets_position_idempotent_rotation_accumulates:
  assumes "Map_get (planets (run cmds)) name = Some e"
  shows "position_x (objects (updatePlanets t (updatePlanets t (run cmds))) ! group e) =
           position_x (objects (updatePlanets t (run cmds)) ! group e) \<and>
         position_z (objects (updatePlanets t (updatePlanets t (run cmds))) ! group e) =
           position_z (objects (updatePlanets t (run cmds)) ! group e) \<and>
         rotation_y (objects (fold updatePlanets ts (run cmds)) ! mesh e) =
           ((\<lambda>y. double_add y (rotationSpeed (config e))) ^^ length ts)
             (rotation_y (objects (run cmds) ! mesh e))"
proof -
  have inv: "refs_ok (run cmds)"
    using run_invariants [of cmds] by simp
  have mem: "(name, e) \<in> set (planets (run cmds))"
    using assms by (rule Map_get_mem)
  have inv': "refs_ok (updatePlanets t (run cmds))"
    and mem': "(name, e) \<in> set (planets (updatePlanets t (run cmds)))"
    using inv mem by (simp_all add: refs_ok_updatePlanets updatePlanets_fields)
  show ?thesis
    using updatePlanets_entry_objects(1) [OF inv mem, of t]
      updatePlanets_entry_objects(1) [OF inv' mem', of t]
      fold_updatePlanets_rotation [OF inv mem, of ts]
    by simp
qed

text \<open>
  The statement at a body whose rotation speed is the number that \<^verbatim>\<open>0.005\<close> denotes:
  two calls at the same time leave x and z as one call does, and six calls, a tenth of a
  second of frames, turn its mesh from 0 to 0.030000000000000002.
\<close>

theorem updatePlanets_position_idempotent_rotation_accumulates_witness:
  "position_x (objects (updatePlanets 1000 (updatePlanets 1000 (run drift_commands))) ! 12) =
     position_x (objects (updatePlanets 1000 (run drift_commands)) ! 12) \<and>
   position_z (objects (updatePlanets 1000 (updatePlanets 1000 (run drift_commands))) ! 12) =
     position_z (objects (updatePlanets 1000 (run drift_commands)) ! 12) \<and>
   rotation_y (objects (fold updatePlanets [1000, 1016, 1033, 1050, 1066, 1083]
       (run drift_commands)) ! 13) =
     8646911284551353 / 288230376151711744"
  using updatePlanets_position_idempotent_rotation_accumulates
    [OF drift_start(1), of 1000 "[1000, 1016, 1033, 1050, 1066, 1083]"]
  by (simp add: drift_start(2,3) six_rounded_additions)

text \<open>
  Claim C3 as it is written, with the rotation advanced by exactly N times the rotation
  speed, fails at the same body: after six calls the rotation of its mesh, which started
  at 0, is not six times the rotation speed, neither the exact product nor the product as
  the script would compute it.
\<close>

theorem updatePlanets_rotation_exact_counterexample:
  "Map_get (planets (run drift_commands)) ''drift'' =
     Some \<lparr>group = 12, config = new_PlanetConfig drift_params, mesh = 13\<rparr> \<and>
   rotationSpeed (new_PlanetConfig drift_params) = 5764607523034235 / 1152921504606846976 \<and>
   rotation_y (objects (run drift_commands) ! 13) = 0 \<and>
   rotation_y (objects (fold updatePlanets [1000, 1016, 1033, 1050, 1066, 1083]
       (run drift_commands)) ! 13) \<noteq>
     0 + 6 * rotationSpeed (new_PlanetConfig drift_params) \<and>
   rotation_y (objects (fold updatePlanets [1000, 1016, 1033, 1050, 1066, 1083]
       (run drift_commands)) ! 13) \<noteq>
     round_double (6 * rotationSpeed (new_PlanetConfig drift_params))"
proof -
  have inv: "refs_ok (run drift_commands)"
    using run_invariants [of drift_commands] by simp
  have mem: "(''drift'', \<lparr>group = 12, config = new_PlanetConfig drift_params, mesh = 13\<rparr>)
      \<in> set (planets (run drift_commands))"
    using drift_start(1) by (rule Map_get_mem)
  have "rotation_y (objects (fold updatePlanets [1000, 1016, 1033, 1050, 1066, 1083]
       (run drift_commands)) ! 13) = 8646911284551353 / 288230376151711744"
    using fold_updatePlanets_rotation [OF inv mem, of "[1000, 1016, 1033, 1050, 1066, 1083]"]
    by (simp add: drift_start(2,3) six_rounded_additions)
  then show ?thesis
    by (simp add: drift_start six_times_rounded) (simp add: double_0_005_def)
qed

section \<open>The sun\<close>

text \<open>
  Claim C7. Every call of \<^verbatim>\<open>updatePlanets\<close> advances the \<open>y\<close> rotation of the sun by
  0.001, whatever the time, the registered planets and their configurations; a frame
  with auto-rotation on advances it by 0.001 whatever the speed multiplier and the clock.
\<close>

theorem updatePlanets_sun_rotation:
  "rotation_y (objects (updatePlanets t (run cmds)) ! sun (updatePlanets t (run cmds))) =
     rotation_y (objects (run cmds) ! sun (run cmds)) + 0.001 \<and>
   (autoRotate ps \<longrightarrow>
      rotation_y (objects (solarSystem (tick ps now \<lparr>solarSystem = run cmds, calls = cs\<rparr>))
          ! sun (solarSystem (tick ps now \<lparr>solarSystem = run cmds, calls = cs\<rparr>))) =
        rotation_y (objects (run cmds) ! sun (run cmds)) + 0.001)"
proof -
  have inv: "refs_ok (run cmds)"
    using run_invariants [of cmds] by simp
  have "\<And>t. rotation_y (objects (updatePlanets t (run cmds)) ! sun (updatePlanets t (run cmds)))
      = rotation_y (objects (run cmds) ! sun (run cmds)) + 0.001"
    using updatePlanets_sun_object [OF inv] by (simp add: updatePlanets_fields)
  then show ?thesis by (simp add: tick_def Let_def)
qed

text \<open>The statement for a solar system with no planet registered.\<close>

theorem updatePlanets_sun_rotation_witness:
  "planets (run []) = [] \<and>
   rotation_y (objects (updatePlanets 7 (run [])) ! sun (updatePlanets 7 (run []))) =
     rotation_y (objects (run []) ! sun (run [])) + 0.001 \<and>
   rotation_y (objects (solarSystem (tick \<lparr>autoRotate = True, speedMultiplier = 5\<rparr> 16
        \<lparr>solarSystem = run [], calls = []\<rparr>))
      ! sun (solarSystem (tick \<lparr>autoRotate = True, speedMultiplier = 5\<rparr> 16
        \<lparr>solarSystem = run [], calls = []\<rparr>))) =
     rotation_y (objects (run []) ! sun (run [])) + 0.001"
  using updatePlanets_sun_rotation [of 7 "[]" "\<lparr>autoRotate = True, speedMultiplier = 5\<rparr>" 16 "[]"]
  by (simp add: run_Nil new_SolarSystem_fields)

section \<open>What \<open>updatePlanets\<close> leaves alone\<close>

text \<open>
  Claim C8. \<^verbatim>\<open>updatePlanets\<close> keeps the registry as it is: the same names, in the same
  order, with the same configurations and the same objects. It creates and removes no
  object. An object of the store changes at most in the x and z of its position and the
  y of its rotation, and an object that is neither the sun nor the group or the mesh of
  a registered body does not change at all. In a state whose references are in order,
  the sun and the meshes change in their \<open>y\<close> rotation only and the groups in the x
  and z of their position only.
\<close>

theorem updatePlanets_frame:
  "planets (updatePlanets t s) = planets s \<and>
   map fst (planets (updatePlanets t s)) = map fst (planets s) \<and>
   map (\<lambda>x. config (snd x)) (planets (updatePlanets t s)) =
     map (\<lambda>x. config (snd x)) (planets s) \<and>
   sun (updatePlanets t s) = sun s \<and>
   planetGroup (updatePlanets t s) = planetGroup s \<and>
   length (objects (updatePlanets t s)) = length (objects s) \<and>
   (\<forall>r < length (objects s). same_but_motion (objects (updatePlanets t s) ! r) (objects s ! r)) \<and>
   (\<forall>r. r \<notin> set (sun s # entry_refs (planets s)) \<longrightarrow>
      objects (updatePlanets t s) ! r = objects s ! r) \<and>
   (refs_ok s \<longrightarrow>
      objects (updatePlanets t s) ! sun s =
        (objects s ! sun s)\<lparr>rotation_y := rotation_y (objects (updatePlanets t s) ! sun s)\<rparr> \<and>
      (\<forall>x \<in> set (planets s).
         objects (updatePlanets t s) ! group (snd x) =
           (objects s ! group (snd x))
             \<lparr>position_x := position_x (objects (updatePlanets t s) ! group (snd x)),
              position_z := position_z (objects (updatePlanets t s) ! group (snd x))\<rparr> \<and>
         objects (updatePlanets t s) ! mesh (snd x) =
           (objects s ! mesh (snd x))
             \<lparr>rotation_y := rotation_y (objects (updatePlanets t s) ! mesh (snd x))\<rparr>))"
proof -
  let ?h = "fold (\<lambda>(name, planet). update_planet t planet) (planets s) (objects s)"
  have obj: "objects (updatePlanets t s) =
      ?h[sun s := (?h ! sun s)\<lparr>rotation_y := rotation_y (?h ! sun s) + 0.001\<rparr>]"
    by (simp add: updatePlanets_def Let_def)
  have len: "length ?h = length (objects s)"
    by (rule length_fold_update)
  have 1: "same_but_motion (objects (updatePlanets t s) ! r) (objects s ! r)"
    if r: "r < length (objects s)" for r
  proof -
    have "same_but_motion (objects (updatePlanets t s) ! r) (?h ! r)"
      unfolding obj using r len
      by (intro same_but_motion_list_update same_but_motion_updates) simp
    with fold_update_same_but_motion [OF r, of t "planets s"]
    show ?thesis by (blast intro: same_but_motion_trans)
  qed
  have 2: "objects (updatePlanets t s) ! r = objects s ! r"
    if "r \<notin> set (sun s # entry_refs (planets s))" for r
    using that by (simp add: obj fold_update_other)
  have 3: "objects (updatePlanets t s) ! sun s =
        (objects s ! sun s)\<lparr>rotation_y := rotation_y (objects (updatePlanets t s) ! sun s)\<rparr>"
    if "refs_ok s"
    by (simp add: updatePlanets_sun_object [OF that])
  have 4: "objects (updatePlanets t s) ! group (snd x) =
           (objects s ! group (snd x))
             \<lparr>position_x := position_x (objects (updatePlanets t s) ! group (snd x)),
              position_z := position_z (objects (updatePlanets t s) ! group (snd x))\<rparr> \<and>
         objects (updatePlanets t s) ! mesh (snd x) =
           (objects s ! mesh (snd x))
             \<lparr>rotation_y := rotation_y (objects (updatePlanets t s) ! mesh (snd x))\<rparr>"
    if ok: "refs_ok s" and x: "x \<in> set (planets s)" for x
  proof -
    obtain n e where xe: "x = (n, e)" by (cases x)
    from x have mem: "(n, e) \<in> set (planets s)" by (simp add: xe)
    show ?thesis
      by (simp add: xe updatePlanets_entry_objects [OF ok mem])
  qed
  show ?thesis using 1 2 3 4 by (simp add: updatePlanets_fields)
qed

text \<open>
  The statement at the script's state: Earth's group (object 18) and mesh (object 19),
  and Saturn's atmosphere shell (object 29), which no entry of the registry names.
\<close>

theorem updatePlanets_frame_witness:
  "refs_ok (run script_commands) \<and>
   planets (updatePlanets 1000 (run script_commands)) = planets (run script_commands) \<and>
   same_but_motion (objects (updatePlanets 1000 (run script_commands)) ! 18)
     (objects (run script_commands) ! 18) \<and>
   objects (updatePlanets 1000 (run script_commands)) ! 29 = objects (run script_commands) ! 29 \<and>
   objects (updatePlanets 1000 (run script_commands)) ! 18 =
     (objects (run script_commands) ! 18)
       \<lparr>position_x := position_x (objects (updatePlanets 1000 (run script_commands)) ! 18),
        position_z := position_z (objects (updatePlanets 1000 (run script_commands)) ! 18)\<rparr> \<and>
   objects (updatePlanets 1000 (run script_commands)) ! 19 =
     (objects (run script_commands) ! 19)
       \<lparr>rotation_y := rotation_y (objects (updatePlanets 1000 (run script_commands)) ! 19)\<rparr>"
proof -
  have ok: "refs_ok (run script_commands)"
    by (simp add: refs_ok_def script_start entry_refs_Cons entry_refs_Nil)
  show ?thesis
    using updatePlanets_frame [of 1000 "run script_commands"] ok
    by (simp add: script_start entry_refs_Cons entry_refs_Nil)
qed

section \<open>Frames without auto-rotation\<close>

lemma tick_off:
  "\<not> autoRotate ps \<Longrightarrow>
   tick ps now w = w\<lparr>calls := calls w @
       [Call_controls_update, Call_renderer_render, Call_requestAnimationFrame]\<rparr>"
  by (simp add: tick_def)

text \<open>
  Claim C9. Over any number of consecutive frames in each of which \<^verbatim>\<open>autoRotate\<close> is
  false, \<open>tick\<close> never calls \<^verbatim>\<open>updatePlanets\<close>: the calls it makes are the three other
  ones, once per frame, and the solar system, with every position and rotation in it, is
  what it was before the first of these frames.
\<close>

theorem tick_without_autoRotate:
  assumes "\<forall>f \<in> set frames. \<not> autoRotate (fst f)"
  shows "solarSystem (run_frames frames w) = solarSystem w \<and>
         calls (run_frames frames w) = calls w @
           concat (map (\<lambda>f. [Call_controls_update, Call_renderer_render,
                              Call_requestAnimationFrame]) frames)"
  using assms
proof (induction frames arbitrary: w)
  case Nil
  then show ?case by (simp add: run_frames_def)
next
  case (Cons f frames)
  obtain ps now where f: "f = (ps, now)" by (cases f)
  from Cons.prems have off: "\<not> autoRotate ps" and rest: "\<forall>f \<in> set frames. \<not> autoRotate (fst f)"
    by (simp_all add: f)
  have step: "run_frames (f # frames) w = run_frames frames (tick ps now w)"
    by (simp add: run_frames_def f)
  show ?case
    unfolding step using Cons.IH [OF rest, of "tick ps now w"]
    by (simp add: tick_off [OF off])
qed

text \<open>Two frames of the script with auto-rotation switched off.\<close>

theorem tick_without_autoRotate_witness:
  "solarSystem (run_frames
      [(\<lparr>autoRotate = False, speedMultiplier = 1\<rparr>, 16),
       (\<lparr>autoRotate = False, speedMultiplier = 2.5\<rparr>, 33)] script_world) =
     solarSystem script_world \<and>
   calls (run_frames
      [(\<lparr>autoRotate = False, speedMultiplier = 1\<rparr>, 16),
       (\<lparr>autoRotate = False, speedMultiplier = 2.5\<rparr>, 33)] script_world) =
     [Call_controls_update, Call_renderer_render, Call_requestAnimationFrame,
      Call_controls_update, Call_renderer_render, Call_requestAnimationFrame]"
  using tick_without_autoRotate [of
      "[(\<lparr>autoRotate = False, speedMultiplier = 1\<rparr>, 16),
        (\<lparr>autoRotate = False, speedMultiplier = 2.5\<rparr>, 33)]" script_world]
  by (simp add: script_world_def)

section \<open>Registering a name twice\<close>

text \<open>
  Claim C6. After two calls of \<^verbatim>\<open>createPlanet\<close> with the same name, in any state of a
  history, the registry has exactly one entry under that name, and looking the name up
  gives the entry of the second call: its group, which is not the group of the first
  call, and its configuration. Neither call is rejected.
\<close>

theorem createPlanet_same_name_overwrites:
  fixes cmds :: "command list" and name :: string and cfg1 cfg2 :: PlanetConfig
  defines "first \<equiv> createPlanet name cfg1 (run cmds)"
  defines "second \<equiv> createPlanet name cfg2 (snd first)"
  shows "Map_get (planets (snd first)) name =
           Some \<lparr>group = fst first, config = cfg1, mesh = Suc (fst first)\<rparr> \<and>
         Map_get (planets (snd second)) name =
           Some \<lparr>group = fst second, config = cfg2, mesh = Suc (fst second)\<rparr> \<and>
         length (filter (\<lambda>x. fst x = name) (planets (snd second))) = 1 \<and>
         fst first \<noteq> fst second"
proof -
  have inv: "refs_ok (run cmds)"
    using run_invariants [of cmds] by simp
  then have inv1: "refs_ok (snd first)"
    unfolding first_def by (rule refs_ok_createPlanet)
  have keys: "distinct (map fst (planets (snd first)))"
    using inv1 by (simp add: refs_ok_def)
  have pg: "planetGroup (run cmds) < length (objects (run cmds))"
    by (rule run_planetGroup_bound)
  have grow: "length (objects (run cmds)) < length (objects (snd first))"
    unfolding first_def by (simp add: length_createPlanet [OF pg])
  show ?thesis
    using grow count_Map_set [OF keys]
    by (simp add: Map_get_def first_def second_def createPlanet_fst createPlanet_planets
        map_of_Map_set)
qed

text \<open>Registering \<open>earth\<close> twice in a new solar system, the second time as Mars.\<close>

theorem createPlanet_same_name_overwrites_witness:
  "Map_get (planets (snd (createPlanet ''earth'' (new_PlanetConfig mars_params)
      (snd (createPlanet ''earth'' (new_PlanetConfig earth_params) (run [])))))) ''earth'' =
     Some \<lparr>group = 15, config = new_PlanetConfig mars_params, mesh = 16\<rparr> \<and>
   length (filter (\<lambda>x. fst x = ''earth'')
     (planets (snd (createPlanet ''earth'' (new_PlanetConfig mars_params)
      (snd (createPlanet ''earth'' (new_PlanetConfig earth_params) (run []))))))) = 1 \<and>
   fst (createPlanet ''earth'' (new_PlanetConfig earth_params) (run [])) = 12"
proof -
  have "atmosphereOpacity (new_PlanetConfig earth_params) > 0"
    "\<not> hasRings (new_PlanetConfig earth_params)"
    by (simp_all add: new_PlanetConfig_def js_or_simps no_params_def earth_params_def)
  then have len: "length (objects (snd (createPlanet ''earth'' (new_PlanetConfig earth_params)
      new_SolarSystem))) = 15"
    by (simp add: length_createPlanet new_SolarSystem_fields atmosphere_of_def rings_of_def)
  show ?thesis
    using createPlanet_same_name_overwrites
      [of "''earth''" "new_PlanetConfig earth_params" "[]" "new_PlanetConfig mars_params"]
    by (simp add: createPlanet_fst len run_Nil new_SolarSystem_fields)
qed

section \<open>Atmosphere and rings\<close>

text \<open>
  Claim C5 at the parameters \<^verbatim>\<open>{atmosphereOpacity: 0}\<close>: the constructed opacity is the
  default 0.2, and the group that \<^verbatim>\<open>createPlanet\<close> builds from the configuration has an
  atmosphere shell of that opacity before the sphere among its children.
\<close>

theorem createPlanet_zero_opacity_has_atmosphere:
  "param_atmosphereOpacity clear_params = Some 0 \<and>
   atmosphereOpacity (new_PlanetConfig clear_params) = 0.2 \<and>
   child_payloads (snd (createPlanet ''clear'' (new_PlanetConfig clear_params) new_SolarSystem))
     (fst (createPlanet ''clear'' (new_PlanetConfig clear_params) new_SolarSystem)) =
     [Mesh (SphereGeometry 1.1 32 32) (MeshPhongMaterial 16777215 True 0.2 (Some BackSide)),
      Mesh (SphereGeometry 1 32 32) (MeshStandardMaterial 16777215 0.7 0.3)]"
proof -
  have pg: "planetGroup new_SolarSystem < length (objects new_SolarSystem)"
    by (simp add: new_SolarSystem_fields)
  have cfg: "new_PlanetConfig clear_params =
    \<lparr>radius = 1, color = 16777215, atmosphereColor = 16777215, atmosphereThickness = 0.1,
     atmosphereOpacity = 0.2, orbitRadius = 0, rotationSpeed = 0.005, orbitSpeed = 0.001,
     hasRings = False, ringColor = 16777215, ringInnerRadius = None, ringOuterRadius = None\<rparr>"
    by (simp add: new_PlanetConfig_def clear_params_def no_params_def js_or_simps white_def)
  have par: "param_atmosphereOpacity clear_params = Some 0"
    by (simp add: clear_params_def no_params_def)
  show ?thesis
    by (simp add: par createPlanet_fst createPlanet_child_payloads [OF pg] cfg atmosphere_of_def
        rings_of_def new_object_def)
qed

text \<open>
  The guard of \<open>createPlanet\<close> by itself: a configuration whose opacity is not
  positive gets no shell. No configuration the constructor builds has opacity 0.
\<close>

lemma createPlanet_no_atmosphere:
  assumes "atmosphereOpacity cfg \<le> 0"
  shows "child_payloads (snd (createPlanet name cfg (run cmds)))
     (fst (createPlanet name cfg (run cmds))) =
     map payload (rings_of cfg)
     @ [Mesh (SphereGeometry (radius cfg) 32 32) (MeshStandardMaterial (color cfg) 0.7 0.3)]"
  using assms
  by (simp add: createPlanet_fst createPlanet_child_payloads [OF run_planetGroup_bound]
      atmosphere_of_def)

lemma PlanetConfig_atmosphereOpacity_nonzero: "atmosphereOpacity (new_PlanetConfig p) \<noteq> 0"
  by (cases "param_atmosphereOpacity p") (simp_all add: new_PlanetConfig_def js_or_simps)

text \<open>
  Claim C10. The constructor copies \<open>ringInnerRadius\<close> and \<open>ringOuterRadius\<close> from the
  parameters, so they are absent in the configuration when the parameters leave them
  out, while every other field that is left out gets a value. For a configuration with
  \<open>hasRings\<close>, whatever its radii, \<^verbatim>\<open>createPlanet\<close> adds to the group a ring built from
  exactly these two values.
\<close>

theorem ring_radii_without_default:
  "ringInnerRadius (new_PlanetConfig p) = param_ringInnerRadius p \<and>
   ringOuterRadius (new_PlanetConfig p) = param_ringOuterRadius p \<and>
   (param_ringInnerRadius p = None \<longrightarrow> ringInnerRadius (new_PlanetConfig p) = None) \<and>
   (param_ringOuterRadius p = None \<longrightarrow> ringOuterRadius (new_PlanetConfig p) = None) \<and>
   (param_radius p = None \<longrightarrow> radius (new_PlanetConfig p) = 1) \<and>
   (param_color p = None \<longrightarrow> color (new_PlanetConfig p) = white) \<and>
   (param_atmosphereColor p = None \<and> param_color p = None \<longrightarrow>
      atmosphereColor (new_PlanetConfig p) = white) \<and>
   (param_atmosphereThickness p = None \<longrightarrow> atmosphereThickness (new_PlanetConfig p) = 0.1) \<and>
   (param_atmosphereOpacity p = None \<longrightarrow> atmosphereOpacity (new_PlanetConfig p) = 0.2) \<and>
   (param_orbitRadius p = None \<longrightarrow> orbitRadius (new_PlanetConfig p) = 0) \<and>
   (param_rotationSpeed p = None \<longrightarrow> rotationSpeed (new_PlanetConfig p) = 0.005) \<and>
   (param_orbitSpeed p = None \<longrightarrow> orbitSpeed (new_PlanetConfig p) = 0.001) \<and>
   (param_hasRings p = None \<longrightarrow> hasRings (new_PlanetConfig p) = False) \<and>
   (param_ringColor p = None \<longrightarrow> ringColor (new_PlanetConfig p) = white) \<and>
   (hasRings cfg \<longrightarrow>
      Mesh (RingGeometry (ringInnerRadius cfg) (ringOuterRadius cfg) 64)
           (MeshBasicMaterial (ringColor cfg) True 0.7 (Some DoubleSide))
        \<in> set (child_payloads (snd (createPlanet name cfg (run cmds)))
                 (fst (createPlanet name cfg (run cmds)))))"
  by (simp add: new_PlanetConfig_def js_or_simps createPlanet_fst
      createPlanet_child_payloads [OF run_planetGroup_bound] rings_of_def new_object_def)

text \<open>Parameters that ask for rings and give no radius.\<close>

theorem ring_radii_without_default_witness:
  "ringInnerRadius (new_PlanetConfig ringed_params) = None \<and>
   ringOuterRadius (new_PlanetConfig ringed_params) = None \<and>
   hasRings (new_PlanetConfig ringed_params) \<and>
   radius (new_PlanetConfig ringed_params) = 1 \<and>
   Mesh (RingGeometry None None 64) (MeshBasicMaterial 16777215 True 0.7 (Some DoubleSide))
     \<in> set (child_payloads
         (snd (createPlanet ''ringed'' (new_PlanetConfig ringed_params) (run [])))
         (fst (createPlanet ''ringed'' (new_PlanetConfig ringed_params) (run []))))"
proof -
  have cfg: "hasRings (new_PlanetConfig ringed_params)"
    "ringColor (new_PlanetConfig ringed_params) = 16777215"
    by (simp_all add: new_PlanetConfig_def ringed_params_def no_params_def js_or_simps white_def)
  have par: "param_ringInnerRadius ringed_params = None"
    "param_ringOuterRadius ringed_params = None" "param_radius ringed_params = None"
    by (simp_all add: ringed_params_def no_params_def)
  show ?thesis
    using ring_radii_without_default
      [of ringed_params "new_PlanetConfig ringed_params" "''ringed''" "[]"]
    by (clarsimp simp add: cfg par)
qed

end
